theory Spec2Isabelle
  imports Complex_Main
begin

section \<open>Python values and the runtime the service code runs on\<close>

text \<open>
  The service layer (\<^verbatim>\<open>services.py\<close>) works on JSON values decoded by \<^verbatim>\<open>json.loads\<close>
  and on attributes of ORM objects. A finite float is a rational; \<open>PInf\<close>, \<open>NInf\<close> and
  \<open>NaN\<close> are the three special doubles. \<open>VObj\<close> stands for any object that is not a
  JSON value (a \<^verbatim>\<open>datetime\<close>, a bound method): it is identified by a description.
  A dict is an association list with distinct keys, as \<^verbatim>\<open>json.loads\<close> builds it.
\<close>

datatype pyfloat = Fin rat | PInf | NInf | NaN

datatype val =
    VNone
  | VBool bool
  | VInt int
  | VFloat pyfloat
  | VStr string
  | VList "val list"
  | VDict "(string \<times> val) list"
  | VObj string

datatype py_error =
    ValueError
  | TypeError
  | OverflowError
  | AttributeError
  | JSONDecodeError
  | IndexError

text \<open>
  What the code uses of the Python runtime and of the ORM base class, none of which is
  code of the repository: the JSON decoder (\<open>None\<close> when it raises), \<^verbatim>\<open>float\<close> on a
  string (\<open>None\<close> for ValueError), \<^verbatim>\<open>str\<close> on a value that is not a string,
  \<^verbatim>\<open>str.lower\<close>, the attributes a model instance inherits from \<^verbatim>\<open>db.Model\<close>
  (\<open>None\<close> when there is no such attribute), the rounding of an exact result to the
  nearest double, and \<^verbatim>\<open>sum\<close> over floats.
\<close>

record runtime =
  json_loads :: "string \<Rightarrow> val option"
  float_of_str :: "string \<Rightarrow> pyfloat option"
  str_of :: "val \<Rightarrow> string"
  str_lower :: "string \<Rightarrow> string"
  base_attr :: "string \<Rightarrow> val option"
  rnd :: "rat \<Rightarrow> rat"
  fsum :: "rat list \<Rightarrow> rat"

definition bnd :: "py_error + 'a \<Rightarrow> ('a \<Rightarrow> py_error + 'b) \<Rightarrow> py_error + 'b" where
  "bnd m f = (case m of Inl e \<Rightarrow> Inl e | Inr x \<Rightarrow> f x)"

subsection \<open>Comparison of values\<close>

definition float_eq :: "pyfloat \<Rightarrow> pyfloat \<Rightarrow> bool" where
  "float_eq a b = (a \<noteq> NaN \<and> b \<noteq> NaN \<and> a = b)"

definition float_lt :: "pyfloat \<Rightarrow> pyfloat \<Rightarrow> bool" where
  "float_lt a b =
     (case a of
        NaN \<Rightarrow> False
      | Fin x \<Rightarrow> (case b of Fin y \<Rightarrow> x < y | PInf \<Rightarrow> True | _ \<Rightarrow> False)
      | NInf \<Rightarrow> (case b of Fin y \<Rightarrow> True | PInf \<Rightarrow> True | _ \<Rightarrow> False)
      | PInf \<Rightarrow> False)"

definition float_le :: "pyfloat \<Rightarrow> pyfloat \<Rightarrow> bool" where
  "float_le a b = (float_lt a b \<or> float_eq a b)"

text \<open>The number a value stands for in a comparison: \<^verbatim>\<open>True == 1\<close> and \<^verbatim>\<open>1 == 1.0\<close>.\<close>

fun num_of :: "val \<Rightarrow> pyfloat option" where
  "num_of (VBool b) = Some (Fin (if b then 1 else 0))"
| "num_of (VInt n) = Some (Fin (of_int n))"
| "num_of (VFloat f) = Some f"
| "num_of _ = None"

text \<open>
  Python's \<^verbatim>\<open>==\<close>. Two dicts are equal when they have as many keys and every key of the
  first is in the second with an equal value.
\<close>

fun py_eq :: "val \<Rightarrow> val \<Rightarrow> bool"
  and py_eq_list :: "val list \<Rightarrow> val list \<Rightarrow> bool"
  and py_dict_le :: "(string \<times> val) list \<Rightarrow> (string \<times> val) list \<Rightarrow> bool" where
  "py_eq VNone b = (b = VNone)"
| "py_eq (VBool x) b = (case num_of b of Some f \<Rightarrow> float_eq (Fin (if x then 1 else 0)) f | None \<Rightarrow> False)"
| "py_eq (VInt n) b = (case num_of b of Some f \<Rightarrow> float_eq (Fin (of_int n)) f | None \<Rightarrow> False)"
| "py_eq (VFloat x) b = (case num_of b of Some f \<Rightarrow> float_eq x f | None \<Rightarrow> False)"
| "py_eq (VStr s) b = (b = VStr s)"
| "py_eq (VObj d) b = (b = VObj d)"
| "py_eq (VList xs) b = (case b of VList ys \<Rightarrow> py_eq_list xs ys | _ \<Rightarrow> False)"
| "py_eq (VDict xs) b = (case b of VDict ys \<Rightarrow> length xs = length ys \<and> py_dict_le xs ys | _ \<Rightarrow> False)"
| "py_eq_list [] ys = (ys = [])"
| "py_eq_list (x # xs) ys = (case ys of [] \<Rightarrow> False | y # ys' \<Rightarrow> py_eq x y \<and> py_eq_list xs ys')"
| "py_dict_le [] ys = True"
| "py_dict_le (kv # xs) ys =
     ((case map_of ys (fst kv) of None \<Rightarrow> False | Some w \<Rightarrow> py_eq (snd kv) w) \<and> py_dict_le xs ys)"

text \<open>Truthiness, as \<^verbatim>\<open>if not rules\<close> tests it.\<close>

fun py_truthy :: "val \<Rightarrow> bool" where
  "py_truthy VNone = False"
| "py_truthy (VBool b) = b"
| "py_truthy (VInt n) = (n \<noteq> 0)"
| "py_truthy (VFloat f) = (f \<noteq> Fin 0)"
| "py_truthy (VStr s) = (s \<noteq> [])"
| "py_truthy (VList xs) = (xs \<noteq> [])"
| "py_truthy (VDict kvs) = (kvs \<noteq> [])"
| "py_truthy (VObj d) = True"

subsection \<open>Strings\<close>

fun starts_with :: "string \<Rightarrow> string \<Rightarrow> bool" where
  "starts_with [] ys = True"
| "starts_with (x # xs) [] = False"
| "starts_with (x # xs) (y # ys) = (x = y \<and> starts_with xs ys)"

text \<open>\<^verbatim>\<open>needle in hay\<close> on two strings.\<close>

fun str_contains :: "string \<Rightarrow> string \<Rightarrow> bool" where
  "str_contains needle [] = (needle = [])"
| "str_contains needle (y # ys) = (starts_with needle (y # ys) \<or> str_contains needle ys)"

text \<open>\<^verbatim>\<open>field_path.split('.')\<close>: always at least one part.\<close>

fun split_dot :: "string \<Rightarrow> string list" where
  "split_dot [] = [[]]"
| "split_dot (c # cs) =
     (if c = CHR ''.'' then [] # split_dot cs
      else (case split_dot cs of [] \<Rightarrow> [[c]] | p # ps \<Rightarrow> (c # p) # ps))"

definition py_str :: "runtime \<Rightarrow> val \<Rightarrow> string" where
  "py_str R v = (case v of VStr s \<Rightarrow> s | _ \<Rightarrow> str_of R v)"

subsection \<open>Built-in operations that can raise\<close>

text \<open>
  \<^verbatim>\<open>float(x)\<close>: an int beyond the range of a double raises OverflowError (the
  largest double is \<open>2^1024 - 2^971\<close>, and an int rounds to the nearest double), a string
  that is no number raises ValueError, and None, a list, a dict or any other object
  raises TypeError.
\<close>

definition py_float :: "runtime \<Rightarrow> val \<Rightarrow> py_error + pyfloat" where
  "py_float R v =
     (case v of
        VFloat f \<Rightarrow> Inr f
      | VInt n \<Rightarrow>
          if \<bar>n\<bar> \<ge> 2 ^ 1024 - 2 ^ 970 then Inl OverflowError
          else Inr (Fin (rnd R (of_int n)))
      | VBool b \<Rightarrow> Inr (Fin (if b then 1 else 0))
      | VStr s \<Rightarrow> (case float_of_str R s of None \<Rightarrow> Inl ValueError | Some f \<Rightarrow> Inr f)
      | _ \<Rightarrow> Inl TypeError)"

text \<open>
  \<^verbatim>\<open>a in e\<close>: a substring test when \<open>e\<close> is a string (TypeError unless \<open>a\<close> is one
  too), a search by \<^verbatim>\<open>==\<close> when \<open>e\<close> is a list, a key lookup when \<open>e\<close> is a dict
  (TypeError when \<open>a\<close> is unhashable), and TypeError when \<open>e\<close> is not a container.
\<close>

definition py_in :: "val \<Rightarrow> val \<Rightarrow> py_error + bool" where
  "py_in a e =
     (case e of
        VStr s \<Rightarrow> (case a of VStr t \<Rightarrow> Inr (str_contains t s) | _ \<Rightarrow> Inl TypeError)
      | VList xs \<Rightarrow> Inr (list_ex (py_eq a) xs)
      | VDict kvs \<Rightarrow>
          (case a of
             VList _ \<Rightarrow> Inl TypeError
           | VDict _ \<Rightarrow> Inl TypeError
           | VStr k \<Rightarrow> Inr (k \<in> set (map fst kvs))
           | _ \<Rightarrow> Inr False)
      | _ \<Rightarrow> Inl TypeError)"

text \<open>\<^verbatim>\<open>d.get(k, dflt)\<close>: AttributeError when \<open>d\<close> is not a dict.\<close>

definition py_get :: "val \<Rightarrow> string \<Rightarrow> val \<Rightarrow> py_error + val" where
  "py_get d k dflt =
     (case d of
        VDict kvs \<Rightarrow> Inr (case map_of kvs k of None \<Rightarrow> dflt | Some v \<Rightarrow> v)
      | _ \<Rightarrow> Inl AttributeError)"

text \<open>What a \<^verbatim>\<open>for\<close> loop iterates over; TypeError when the value is not iterable.\<close>

definition py_iter :: "val \<Rightarrow> py_error + val list" where
  "py_iter v =
     (case v of
        VList xs \<Rightarrow> Inr xs
      | VStr s \<Rightarrow> Inr (map (\<lambda>c. VStr [c]) s)
      | VDict kvs \<Rightarrow> Inr (map (\<lambda>kv. VStr (fst kv)) kvs)
      | _ \<Rightarrow> Inl TypeError)"

section \<open>The data model (models.py)\<close>

text \<open>
  One record per model class, with the columns of \<^verbatim>\<open>models.py\<close>; a column that may
  hold null where a service function reads it is an \<open>option\<close> (a campaign's budget and
  cost per send among them: an update can set them to null), a JSON column is the text it
  stores. The field names carry the class as
  a prefix (\<open>cust_\<close>, \<open>seg_\<close>, \<open>camp_\<close>, \<open>res_\<close>), since the classes share column
  names. A \<^verbatim>\<open>datetime\<close> is a number of seconds. The \<^verbatim>\<open>created_at\<close> and
  \<^verbatim>\<open>updated_at\<close> columns, which the ORM fills in through its column hooks and no
  service function assigns, are not fields of the records.
\<close>

type_synonym datetime = nat

record customer =
  cust_id :: int
  cust_name :: string
  cust_email :: string
  cust_phone :: "string option"
  cust_demographics :: "string option"
  cust_purchase_history :: "string option"
  cust_behavioral_data :: "string option"
  cust_total_spent :: rat
  cust_lifetime_value :: rat
  cust_engagement_score :: int
  cust_status :: string
  cust_lead_source :: "string option"
  cust_campaign_activities :: "val list"

record segment =
  seg_id :: int
  seg_name :: string
  seg_description :: "string option"
  seg_criteria :: string
  seg_segment_type :: string
  seg_customer_count :: int
  seg_is_active :: bool

record campaign =
  camp_id :: int
  camp_name :: string
  camp_description :: "string option"
  camp_campaign_type :: string
  camp_subject :: "string option"
  camp_content :: "string option"
  camp_segment_id :: int
  camp_status :: string
  camp_schedule_time :: "datetime option"
  camp_start_date :: "datetime option"
  camp_end_date :: "datetime option"
  camp_budget :: "rat option"
  camp_cost_per_send :: "rat option"
  camp_workflow_steps :: "string option"

record campaign_result =
  res_id :: int
  res_campaign_id :: int
  res_total_sent :: int
  res_delivered :: int
  res_bounced :: int
  res_opens :: int
  res_clicks :: int
  res_unsubscribes :: int
  res_impressions :: int
  res_conversions :: int
  res_leads_generated :: int
  res_leads_converted :: int
  res_revenue_attributed :: rat
  res_total_cost :: rat

text \<open>
  The store: the tables in the order \<^verbatim>\<open>query.all()\<close> returns their rows, and the
  \<^verbatim>\<open>segment_customers\<close> association table (segment id, customer id).
\<close>

record store =
  customers :: "customer list"
  segments :: "segment list"
  campaigns :: "campaign list"
  results :: "campaign_result list"
  segment_customers :: "(int \<times> int) list"

subsection \<open>Methods of Customer and Segment\<close>

text \<open>\<^verbatim>\<open>json.loads(text) if text else dflt\<close>.\<close>

definition load_json_column :: "runtime \<Rightarrow> string option \<Rightarrow> val \<Rightarrow> py_error + val" where
  "load_json_column R col dflt =
     (case col of
        None \<Rightarrow> Inr dflt
      | Some s \<Rightarrow>
          if s = [] then Inr dflt
          else (case json_loads R s of None \<Rightarrow> Inl JSONDecodeError | Some v \<Rightarrow> Inr v))"

definition get_demographics :: "runtime \<Rightarrow> customer \<Rightarrow> py_error + val" where
  "get_demographics R c = load_json_column R (cust_demographics c) (VDict [])"

definition get_behavioral_data :: "runtime \<Rightarrow> customer \<Rightarrow> py_error + val" where
  "get_behavioral_data R c = load_json_column R (cust_behavioral_data c) (VDict [])"

definition get_purchase_history :: "runtime \<Rightarrow> customer \<Rightarrow> py_error + val" where
  "get_purchase_history R c = load_json_column R (cust_purchase_history c) (VList [])"

definition get_criteria :: "runtime \<Rightarrow> segment \<Rightarrow> py_error + val" where
  "get_criteria R s = load_json_column R (Some (seg_criteria s)) (VDict [])"

definition opt_str :: "string option \<Rightarrow> val" where
  "opt_str x = (case x of None \<Rightarrow> VNone | Some s \<Rightarrow> VStr s)"

text \<open>The names of the methods \<^verbatim>\<open>models.py\<close> declares on Customer.\<close>

definition customer_methods :: "string list" where
  "customer_methods =
     [''get_demographics'', ''set_demographics'', ''get_purchase_history'',
      ''set_purchase_history'', ''get_behavioral_data'', ''set_behavioral_data'', ''to_dict'']"

text \<open>
  \<^verbatim>\<open>getattr(customer, name, None)\<close>: a column gives its value (None when null), the
  two timestamps a \<^verbatim>\<open>datetime\<close>, a method its bound method, the backref
  \<^verbatim>\<open>campaign_activities\<close> its list; any other name is looked up in what the class
  inherits, and is None when it is not there either.
\<close>

definition getattr_customer :: "runtime \<Rightarrow> customer \<Rightarrow> string \<Rightarrow> val" where
  "getattr_customer R c a =
     (if a = ''id'' then VInt (cust_id c)
      else if a = ''name'' then VStr (cust_name c)
      else if a = ''email'' then VStr (cust_email c)
      else if a = ''phone'' then opt_str (cust_phone c)
      else if a = ''demographics'' then opt_str (cust_demographics c)
      else if a = ''purchase_history'' then opt_str (cust_purchase_history c)
      else if a = ''behavioral_data'' then opt_str (cust_behavioral_data c)
      else if a = ''total_spent'' then VFloat (Fin (cust_total_spent c))
      else if a = ''lifetime_value'' then VFloat (Fin (cust_lifetime_value c))
      else if a = ''engagement_score'' then VInt (cust_engagement_score c)
      else if a = ''status'' then VStr (cust_status c)
      else if a = ''lead_source'' then opt_str (cust_lead_source c)
      else if a = ''created_at'' \<or> a = ''updated_at'' then VObj ''datetime''
      else if a = ''campaign_activities'' then VList (cust_campaign_activities c)
      else if a \<in> set customer_methods then VObj (''bound method '' @ a)
      else (case base_attr R a of None \<Rightarrow> VNone | Some v \<Rightarrow> v))"

section \<open>The segment criteria evaluator (services.py)\<close>

text \<open>
  \<^verbatim>\<open>get_nested_value(customer, field_path)\<close>. The field path is what
  \<^verbatim>\<open>rule.get('field', '')\<close> gave, so any JSON value: \<^verbatim>\<open>.split\<close> raises
  AttributeError when it is not a string, and \<^verbatim>\<open>data.get\<close> does when the stored bag
  is not a dict.
\<close>

definition get_nested_value :: "runtime \<Rightarrow> customer \<Rightarrow> val \<Rightarrow> py_error + val" where
  "get_nested_value R c field_path =
     (case field_path of
        VStr s \<Rightarrow>
          (case split_dot s of
             [] \<Rightarrow> Inl IndexError
           | p0 # rest \<Rightarrow>
               if p0 = ''demographics'' then
                 bnd (get_demographics R c)
                   (\<lambda>data. case rest of [] \<Rightarrow> Inr data | p1 # _ \<Rightarrow> py_get data p1 VNone)
               else if p0 = ''behavioral_data'' then
                 bnd (get_behavioral_data R c)
                   (\<lambda>data. case rest of [] \<Rightarrow> Inr data | p1 # _ \<Rightarrow> py_get data p1 VNone)
               else if p0 = ''purchase_history'' then get_purchase_history R c
               else Inr (getattr_customer R c p0))
      | _ \<Rightarrow> Inl AttributeError)"

text \<open>The body of the \<^verbatim>\<open>try\<close> block of \<^verbatim>\<open>evaluate_rule\<close>.\<close>

definition rule_body :: "runtime \<Rightarrow> val \<Rightarrow> val \<Rightarrow> val \<Rightarrow> py_error + bool" where
  "rule_body R actual_value operator expected_value =
     (if operator = VStr ''eq'' then Inr (py_eq actual_value expected_value)
      else if operator = VStr ''neq'' then Inr (\<not> py_eq actual_value expected_value)
      else if operator = VStr ''gt'' then
        bnd (py_float R actual_value) (\<lambda>a. bnd (py_float R expected_value) (\<lambda>e. Inr (float_lt e a)))
      else if operator = VStr ''gte'' then
        bnd (py_float R actual_value) (\<lambda>a. bnd (py_float R expected_value) (\<lambda>e. Inr (float_le e a)))
      else if operator = VStr ''lt'' then
        bnd (py_float R actual_value) (\<lambda>a. bnd (py_float R expected_value) (\<lambda>e. Inr (float_lt a e)))
      else if operator = VStr ''lte'' then
        bnd (py_float R actual_value) (\<lambda>a. bnd (py_float R expected_value) (\<lambda>e. Inr (float_le a e)))
      else if operator = VStr ''contains'' then
        Inr (str_contains (str_lower R (py_str R expected_value))
                          (str_lower R (py_str R actual_value)))
      else if operator = VStr ''in'' then py_in actual_value expected_value
      else Inr False)"

text \<open>\<^verbatim>\<open>except (ValueError, TypeError): return False\<close>; any other exception goes on.\<close>

definition except_value_type :: "py_error + bool \<Rightarrow> py_error + bool" where
  "except_value_type r =
     (case r of
        Inl e \<Rightarrow> if e = ValueError \<or> e = TypeError then Inr False else Inl e
      | Inr b \<Rightarrow> Inr b)"

definition evaluate_rule :: "runtime \<Rightarrow> val \<Rightarrow> val \<Rightarrow> val \<Rightarrow> py_error + bool" where
  "evaluate_rule R actual_value operator expected_value =
     (if actual_value = VNone then Inr False
      else except_value_type (rule_body R actual_value operator expected_value))"

text \<open>One turn of the loop of \<^verbatim>\<open>evaluate_segment_criteria\<close>, on one rule.\<close>

definition eval_one_rule :: "runtime \<Rightarrow> customer \<Rightarrow> val \<Rightarrow> py_error + bool" where
  "eval_one_rule R c rule =
     bnd (py_get rule ''field'' (VStr [])) (\<lambda>field_path.
     bnd (py_get rule ''operator'' (VStr ''eq'')) (\<lambda>operator.
     bnd (py_get rule ''value'' VNone) (\<lambda>value.
     bnd (get_nested_value R c field_path) (\<lambda>actual_value.
       evaluate_rule R actual_value operator value))))"

text \<open>The loop: every rule is evaluated, in order, and the first exception ends it.\<close>

fun eval_rules :: "runtime \<Rightarrow> customer \<Rightarrow> val list \<Rightarrow> py_error + bool list" where
  "eval_rules R c [] = Inr []"
| "eval_rules R c (rule # rs) =
     bnd (eval_one_rule R c rule) (\<lambda>b. bnd (eval_rules R c rs) (\<lambda>bs. Inr (b # bs)))"

text \<open>
  \<^verbatim>\<open>evaluate_segment_criteria(customer, criteria)\<close>. A string is decoded first, and
  the bare \<^verbatim>\<open>except\<close> turns any failure of the decoder into True.
\<close>

definition evaluate_segment_criteria :: "runtime \<Rightarrow> customer \<Rightarrow> val \<Rightarrow> py_error + bool" where
  "evaluate_segment_criteria R c criteria0 =
     (case (case criteria0 of VStr s \<Rightarrow> json_loads R s | _ \<Rightarrow> Some criteria0) of
        None \<Rightarrow> Inr True
      | Some criteria \<Rightarrow>
          bnd (py_get criteria ''rules'' (VList [])) (\<lambda>rules.
          bnd (py_get criteria ''match'' (VStr ''all'')) (\<lambda>match_type.
            if \<not> py_truthy rules then Inr True
            else
              bnd (py_iter rules) (\<lambda>rs.
              bnd (eval_rules R c rs) (\<lambda>rs_results.
                if match_type = VStr ''all'' then Inr (list_all (\<lambda>b. b) rs_results)
                else Inr (list_ex (\<lambda>b. b) rs_results))))))"

section \<open>Segmentation services\<close>

definition segment_query_get :: "store \<Rightarrow> int \<Rightarrow> segment option" where
  "segment_query_get st segment_id = find (\<lambda>s. seg_id s = segment_id) (segments st)"

text \<open>The loop of \<^verbatim>\<open>get_segment_customers\<close> over \<^verbatim>\<open>Customer.query.all()\<close>.\<close>

fun matching_customers :: "runtime \<Rightarrow> val \<Rightarrow> customer list \<Rightarrow> py_error + customer list" where
  "matching_customers R criteria [] = Inr []"
| "matching_customers R criteria (c # cs) =
     bnd (evaluate_segment_criteria R c criteria) (\<lambda>b.
     bnd (matching_customers R criteria cs) (\<lambda>ms. Inr (if b then c # ms else ms)))"

definition get_segment_customers :: "runtime \<Rightarrow> store \<Rightarrow> int \<Rightarrow> py_error + customer list" where
  "get_segment_customers R st segment_id =
     (case segment_query_get st segment_id of
        None \<Rightarrow> Inr []
      | Some seg \<Rightarrow>
          bnd (get_criteria R seg) (\<lambda>criteria. matching_customers R criteria (customers st)))"



section \<open>Campaign services\<close>

definition campaign_query_get :: "store \<Rightarrow> int \<Rightarrow> campaign option" where
  "campaign_query_get st campaign_id = find (\<lambda>c. camp_id c = campaign_id) (campaigns st)"

text \<open>\<^verbatim>\<open>campaign.results\<close>: the result row that refers to the campaign, if any.\<close>

definition campaign_results :: "store \<Rightarrow> campaign \<Rightarrow> campaign_result option" where
  "campaign_results st c = find (\<lambda>r. res_campaign_id r = camp_id c) (results st)"

definition put_campaign :: "store \<Rightarrow> campaign \<Rightarrow> store" where
  "put_campaign st c' =
     st\<lparr>campaigns := map (\<lambda>c. if camp_id c = camp_id c' then c' else c) (campaigns st)\<rparr>"

definition put_result :: "store \<Rightarrow> campaign_result \<Rightarrow> store" where
  "put_result st r' =
     st\<lparr>results := map (\<lambda>r. if res_id r = res_id r' then r' else r) (results st)\<rparr>"



text \<open>\<open>now\<close> is what \<^verbatim>\<open>datetime.utcnow()\<close> returns at the call.\<close>

definition complete_campaign :: "datetime \<Rightarrow> store \<Rightarrow> int \<Rightarrow> campaign option \<times> store" where
  "complete_campaign now st campaign_id =
     (case campaign_query_get st campaign_id of
        None \<Rightarrow> (None, st)
      | Some c \<Rightarrow>
          (let c' = c\<lparr>camp_status := ''completed'', camp_end_date := Some now\<rparr>
           in (Some c', put_campaign st c')))"

subsection \<open>Launch and the simulation of results\<close>

text \<open>
  What the random generator returns during one launch, one field per call site of
  \<^verbatim>\<open>launch_campaign\<close>: a call of \<^verbatim>\<open>random.randint\<close> or \<^verbatim>\<open>random.uniform\<close> is a
  function of the two arguments the call passes, and \<^verbatim>\<open>random.random()\<close> is a value.
\<close>

record draws =
  fallback_audience :: "int \<Rightarrow> int \<Rightarrow> int"
  delivery_draw :: "rat \<Rightarrow> rat \<Rightarrow> rat"
  email_open_draw :: "rat \<Rightarrow> rat \<Rightarrow> rat"
  email_click_draw :: "rat \<Rightarrow> rat \<Rightarrow> rat"
  social_impressions_draw :: "int \<Rightarrow> int \<Rightarrow> int"
  social_open_draw :: "rat \<Rightarrow> rat \<Rightarrow> rat"
  social_click_draw :: "rat \<Rightarrow> rat \<Rightarrow> rat"
  ads_impressions_draw :: "int \<Rightarrow> int \<Rightarrow> int"
  ads_click_draw :: "rat \<Rightarrow> rat \<Rightarrow> rat"
  conversion_draw :: "rat \<Rightarrow> rat \<Rightarrow> rat"
  coin_draw :: rat
  leads_draw :: "rat \<Rightarrow> rat \<Rightarrow> rat"
  leads_converted_draw :: "rat \<Rightarrow> rat \<Rightarrow> rat"
  order_value_draw :: "rat \<Rightarrow> rat \<Rightarrow> rat"

text \<open>
  The contracts of the \<^verbatim>\<open>random\<close> module: \<^verbatim>\<open>randint(lo, hi)\<close> and
  \<^verbatim>\<open>uniform(a, b)\<close> return a value between their two arguments, and \<^verbatim>\<open>random()\<close> a
  value in [0, 1).
\<close>

definition randint_contract :: "(int \<Rightarrow> int \<Rightarrow> int) \<Rightarrow> bool" where
  "randint_contract f = (\<forall>lo hi. lo \<le> hi \<longrightarrow> lo \<le> f lo hi \<and> f lo hi \<le> hi)"

definition uniform_contract :: "(rat \<Rightarrow> rat \<Rightarrow> rat) \<Rightarrow> bool" where
  "uniform_contract f = (\<forall>a b. a \<le> b \<longrightarrow> a \<le> f a b \<and> f a b \<le> b)"

definition draws_in_range :: "draws \<Rightarrow> bool" where
  "draws_in_range D =
     (randint_contract (fallback_audience D) \<and>
      uniform_contract (delivery_draw D) \<and>
      uniform_contract (email_open_draw D) \<and>
      uniform_contract (email_click_draw D) \<and>
      randint_contract (social_impressions_draw D) \<and>
      uniform_contract (social_open_draw D) \<and>
      uniform_contract (social_click_draw D) \<and>
      randint_contract (ads_impressions_draw D) \<and>
      uniform_contract (ads_click_draw D) \<and>
      uniform_contract (conversion_draw D) \<and>
      0 \<le> coin_draw D \<and> coin_draw D < 1 \<and>
      uniform_contract (leads_draw D) \<and>
      uniform_contract (leads_converted_draw D) \<and>
      uniform_contract (order_value_draw D))"

text \<open>A float literal of the source is the double nearest to the decimal it writes.\<close>

definition flit :: "runtime \<Rightarrow> rat \<Rightarrow> rat" where
  "flit R q = rnd R q"

text \<open>\<^verbatim>\<open>n * u\<close> for an int and a float: the int is converted, the product rounded.\<close>

definition fmul_int :: "runtime \<Rightarrow> int \<Rightarrow> rat \<Rightarrow> rat" where
  "fmul_int R n u = rnd R (rnd R (of_int n) * u)"

text \<open>\<^verbatim>\<open>int(x)\<close> truncates towards zero; \<^verbatim>\<open>math.ceil(x)\<close> rounds up.\<close>

definition py_int :: "rat \<Rightarrow> int" where
  "py_int x = (if 0 \<le> x then \<lfloor>x\<rfloor> else \<lceil>x\<rceil>)"

definition math_ceil :: "rat \<Rightarrow> int" where
  "math_ceil x = \<lceil>x\<rceil>"

text \<open>
  The block under \<^verbatim>\<open>if campaign.results:\<close>, on the result row. Its last statement
  multiplies by \<^verbatim>\<open>campaign.cost_per_send\<close> and by \<^verbatim>\<open>campaign.budget\<close>: either column
  may be null, and the product with None raises TypeError.
\<close>

definition simulate_results ::
  "runtime \<Rightarrow> draws \<Rightarrow> campaign \<Rightarrow> int \<Rightarrow> campaign_result \<Rightarrow> py_error + campaign_result" where
  "simulate_results R D c audience_size r0 =
     (let r1 = r0\<lparr>res_total_sent := audience_size\<rparr>;
          r2 = r1\<lparr>res_delivered :=
                     py_int (fmul_int R audience_size
                               (delivery_draw D (flit R (92 / 100)) (flit R (98 / 100))))\<rparr>;
          r3 = r2\<lparr>res_bounced := res_total_sent r2 - res_delivered r2\<rparr>;
          r4 = (if camp_campaign_type c = ''email'' then
                  (let a = r3\<lparr>res_opens :=
                                py_int (fmul_int R (res_delivered r3)
                                          (email_open_draw D (flit R (15 / 100)) (flit R (35 / 100))))\<rparr>
                   in a\<lparr>res_clicks :=
                          py_int (fmul_int R (res_opens a)
                                    (email_click_draw D (flit R (10 / 100)) (flit R (25 / 100))))\<rparr>)
                else if camp_campaign_type c = ''social'' then
                  (let a = r3\<lparr>res_impressions := audience_size * social_impressions_draw D 2 5\<rparr>;
                       b = a\<lparr>res_opens :=
                                py_int (fmul_int R (res_impressions a)
                                          (social_open_draw D (flit R (2 / 100)) (flit R (8 / 100))))\<rparr>
                   in b\<lparr>res_clicks :=
                          py_int (fmul_int R (res_opens b)
                                    (social_click_draw D (flit R (20 / 100)) (flit R (40 / 100))))\<rparr>)
                else
                  (let a = r3\<lparr>res_impressions := audience_size * ads_impressions_draw D 5 15\<rparr>;
                       b = a\<lparr>res_clicks :=
                                py_int (fmul_int R (res_impressions a)
                                          (ads_click_draw D (flit R (1 / 100)) (flit R (5 / 100))))\<rparr>
                   in b\<lparr>res_opens := res_clicks b\<rparr>));
          raw_conversions =
            fmul_int R (res_clicks r4) (conversion_draw D (flit R (5 / 100)) (flit R (20 / 100)));
          r5 = (if raw_conversions < 1 \<and> res_clicks r4 > 0 \<and> coin_draw D > flit R (1 / 2)
                then r4\<lparr>res_conversions := 1\<rparr>
                else r4\<lparr>res_conversions := math_ceil raw_conversions\<rparr>);
          r6 = r5\<lparr>res_leads_generated :=
                     math_ceil (fmul_int R (res_clicks r5)
                                  (leads_draw D (flit R (10 / 100)) (flit R (30 / 100))))\<rparr>;
          r7 = r6\<lparr>res_leads_converted :=
                     math_ceil (fmul_int R (res_leads_generated r6)
                                  (leads_converted_draw D (flit R (20 / 100)) (flit R (40 / 100))))\<rparr>;
          avg_order_value = order_value_draw D 50 200;
          r8 = r7\<lparr>res_revenue_attributed := fmul_int R (res_conversions r7) avg_order_value\<rparr>
      in case camp_cost_per_send c of
           None \<Rightarrow> Inl TypeError
         | Some cost_per_send \<Rightarrow>
             (case camp_budget c of
                None \<Rightarrow> Inl TypeError
              | Some budget \<Rightarrow>
                  Inr (r8\<lparr>res_total_cost :=
                            rnd R (fmul_int R (res_total_sent r8) cost_per_send
                                   + rnd R (budget * flit R (1 / 2)))\<rparr>)))"

text \<open>
  The simulation model as the specification words it, one equation per field of the result
  row \<open>r'\<close> that a launch leaves, from the row \<open>r\<close> it found: sent is the audience;
  delivered = sent * uniform(0.92, 0.98); bounced = sent - delivered; for email, opens =
  delivered * uniform(0.15, 0.35) and clicks = opens * uniform(0.10, 0.25); for social,
  impressions = audience * randint(2, 5), opens = impressions * uniform(0.02, 0.08) and
  clicks = opens * uniform(0.20, 0.40); for any other type, impressions = audience *
  randint(5, 15), clicks = impressions * uniform(0.01, 0.05) and opens = clicks; raw =
  clicks * uniform(0.05, 0.20), and conversions is 1 when raw < 1, clicks > 0 and the coin
  is above 0.5, else ceil(raw); leads_generated = ceil(clicks * uniform(0.10, 0.30));
  leads_converted = ceil(leads_generated * uniform(0.20, 0.40)); revenue = conversions *
  uniform(50, 200); cost = sent * cost_per_send + budget * 0.5. A counter is the product
  truncated to an int. The identifiers and the unsubscribes are those of \<open>r\<close>, and so are
  the impressions of an email campaign.
\<close>

definition simulated_row ::
  "runtime \<Rightarrow> draws \<Rightarrow> string \<Rightarrow> int \<Rightarrow> rat \<Rightarrow> rat \<Rightarrow> campaign_result \<Rightarrow> campaign_result \<Rightarrow> bool" where
  "simulated_row R D ctype audience cost_per_send budget r r' =
     (res_id r' = res_id r \<and>
      res_campaign_id r' = res_campaign_id r \<and>
      res_unsubscribes r' = res_unsubscribes r \<and>
      res_total_sent r' = audience \<and>
      res_delivered r' =
        py_int (fmul_int R audience (delivery_draw D (flit R (92 / 100)) (flit R (98 / 100)))) \<and>
      res_bounced r' = res_total_sent r' - res_delivered r' \<and>
      res_impressions r' =
        (if ctype = ''email'' then res_impressions r
         else if ctype = ''social'' then audience * social_impressions_draw D 2 5
         else audience * ads_impressions_draw D 5 15) \<and>
      res_opens r' =
        (if ctype = ''email'' then
           py_int (fmul_int R (res_delivered r')
                     (email_open_draw D (flit R (15 / 100)) (flit R (35 / 100))))
         else if ctype = ''social'' then
           py_int (fmul_int R (res_impressions r')
                     (social_open_draw D (flit R (2 / 100)) (flit R (8 / 100))))
         else res_clicks r') \<and>
      res_clicks r' =
        (if ctype = ''email'' then
           py_int (fmul_int R (res_opens r')
                     (email_click_draw D (flit R (10 / 100)) (flit R (25 / 100))))
         else if ctype = ''social'' then
           py_int (fmul_int R (res_opens r')
                     (social_click_draw D (flit R (20 / 100)) (flit R (40 / 100))))
         else
           py_int (fmul_int R (res_impressions r')
                     (ads_click_draw D (flit R (1 / 100)) (flit R (5 / 100))))) \<and>
      res_conversions r' =
        (if fmul_int R (res_clicks r') (conversion_draw D (flit R (5 / 100)) (flit R (20 / 100))) < 1
            \<and> res_clicks r' > 0 \<and> coin_draw D > flit R (1 / 2)
         then 1
         else math_ceil (fmul_int R (res_clicks r')
                           (conversion_draw D (flit R (5 / 100)) (flit R (20 / 100))))) \<and>
      res_leads_generated r' =
        math_ceil (fmul_int R (res_clicks r') (leads_draw D (flit R (10 / 100)) (flit R (30 / 100)))) \<and>
      res_leads_converted r' =
        math_ceil (fmul_int R (res_leads_generated r')
                     (leads_converted_draw D (flit R (20 / 100)) (flit R (40 / 100)))) \<and>
      res_revenue_attributed r' = fmul_int R (res_conversions r') (order_value_draw D 50 200) \<and>
      res_total_cost r' =
        rnd R (fmul_int R (res_total_sent r') cost_per_send + rnd R (budget * flit R (1 / 2))))"

text \<open>
  \<^verbatim>\<open>len(segment_customers) if segment_customers else random.randint(100, 500)\<close>.
\<close>

definition audience_size_of :: "draws \<Rightarrow> customer list \<Rightarrow> int" where
  "audience_size_of D matching =
     (if matching \<noteq> [] then int (length matching) else fallback_audience D 100 500)"

text \<open>
  \<^verbatim>\<open>launch_campaign(campaign_id)\<close>. The commit is its last statement: an exception
  before it, from the audience query or from the simulation, leaves the store as it was.
\<close>

definition launch_campaign ::
  "runtime \<Rightarrow> draws \<Rightarrow> datetime \<Rightarrow> store \<Rightarrow> int \<Rightarrow> py_error + (campaign option \<times> store)" where
  "launch_campaign R D now st campaign_id =
     (case campaign_query_get st campaign_id of
        None \<Rightarrow> Inr (None, st)
      | Some c \<Rightarrow>
          if camp_status c \<noteq> ''draft'' then Inr (Some c, st)
          else
            bnd (get_segment_customers R st (camp_segment_id c)) (\<lambda>matching.
              let audience_size = audience_size_of D matching;
                  c' = c\<lparr>camp_status := ''active'', camp_start_date := Some now\<rparr>;
                  st1 = put_campaign st c'
              in case campaign_results st c of
                   None \<Rightarrow> Inr (Some c', st1)
                 | Some r \<Rightarrow>
                     bnd (simulate_results R D c' audience_size r) (\<lambda>r'.
                       Inr (Some c', put_result st1 r'))))"

section \<open>Analytics\<close>

text \<open>
  True division of two ints, then \<^verbatim>\<open>* 100\<close>; each operation rounds its exact result.
\<close>

definition percent_of :: "runtime \<Rightarrow> int \<Rightarrow> int \<Rightarrow> rat" where
  "percent_of R a b = rnd R (rnd R (of_int a / of_int b) * 100)"

definition roi_of :: "runtime \<Rightarrow> rat \<Rightarrow> rat \<Rightarrow> rat" where
  "roi_of R revenue cost = rnd R (rnd R (rnd R (revenue - cost) / cost) * 100)"

record metrics =
  m_campaign_id :: int
  m_total_sent :: int
  m_delivered :: int
  m_bounced :: int
  m_opens :: int
  m_clicks :: int
  m_conversions :: int
  m_leads_generated :: int
  m_leads_converted :: int
  m_revenue_attributed :: rat
  m_total_cost :: rat
  m_delivery_rate :: rat
  m_open_rate :: rat
  m_click_rate :: rat
  m_ctr :: rat
  m_conversion_rate :: rat
  m_roi :: rat

text \<open>\<^verbatim>\<open>CampaignResult.calculate_metrics\<close>, one field per key of the dict it returns.\<close>

definition calculate_metrics :: "runtime \<Rightarrow> campaign_result \<Rightarrow> metrics" where
  "calculate_metrics R r =
     \<lparr> m_campaign_id = res_campaign_id r,
       m_total_sent = res_total_sent r,
       m_delivered = res_delivered r,
       m_bounced = res_bounced r,
       m_opens = res_opens r,
       m_clicks = res_clicks r,
       m_conversions = res_conversions r,
       m_leads_generated = res_leads_generated r,
       m_leads_converted = res_leads_converted r,
       m_revenue_attributed = res_revenue_attributed r,
       m_total_cost = res_total_cost r,
       m_delivery_rate =
         (if res_total_sent r > 0 then percent_of R (res_delivered r) (res_total_sent r) else 0),
       m_open_rate =
         (if res_delivered r > 0 then percent_of R (res_opens r) (res_delivered r) else 0),
       m_click_rate =
         (if res_opens r > 0 then percent_of R (res_clicks r) (res_opens r) else 0),
       m_ctr =
         (if res_delivered r > 0 then percent_of R (res_clicks r) (res_delivered r) else 0),
       m_conversion_rate =
         (if res_clicks r > 0 then percent_of R (res_conversions r) (res_clicks r) else 0),
       m_roi =
         (if res_total_cost r > 0 then roi_of R (res_revenue_attributed r) (res_total_cost r)
          else 0) \<rparr>"

record overview =
  total_campaigns :: nat
  active_campaigns :: nat
  completed_campaigns :: nat
  draft_campaigns :: nat
  total_sent :: int
  total_opens :: int
  total_clicks :: int
  total_conversions :: int
  overall_open_rate :: rat
  overall_click_rate :: rat
  overall_conversion_rate :: rat
  total_revenue :: rat
  total_cost :: rat
  overall_roi :: rat
  total_customers :: nat
  total_segments :: nat
  total_leads :: nat

definition count_status :: "string \<Rightarrow> campaign list \<Rightarrow> nat" where
  "count_status s cs = length (filter (\<lambda>c. camp_status c = s) cs)"

definition get_analytics_overview :: "runtime \<Rightarrow> store \<Rightarrow> overview" where
  "get_analytics_overview R st =
     (let cs = campaigns st;
          rs = results st;
          t_sent = sum_list (map res_total_sent rs);
          t_opens = sum_list (map res_opens rs);
          t_clicks = sum_list (map res_clicks rs);
          t_conversions = sum_list (map res_conversions rs);
          t_revenue = fsum R (map res_revenue_attributed rs);
          t_cost = fsum R (map res_total_cost rs)
      in \<lparr> total_campaigns = length cs,
           active_campaigns = count_status ''active'' cs,
           completed_campaigns = count_status ''completed'' cs,
           draft_campaigns = count_status ''draft'' cs,
           total_sent = t_sent,
           total_opens = t_opens,
           total_clicks = t_clicks,
           total_conversions = t_conversions,
           overall_open_rate = (if t_sent > 0 then percent_of R t_opens t_sent else 0),
           overall_click_rate = (if t_opens > 0 then percent_of R t_clicks t_opens else 0),
           overall_conversion_rate =
             (if t_clicks > 0 then percent_of R t_conversions t_clicks else 0),
           total_revenue = t_revenue,
           total_cost = t_cost,
           overall_roi = (if t_cost > 0 then roi_of R t_revenue t_cost else 0),
           total_customers = length (customers st),
           total_segments = length (filter seg_is_active (segments st)),
           total_leads = length (filter (\<lambda>c. cust_status c = ''lead'') (customers st)) \<rparr>)"

section \<open>Concrete data for the scenarios\<close>

text \<open>
  The criteria of the "New Leads" segment of \<^verbatim>\<open>initialize_demo_data\<close>, as the text the
  segment stores and as the value the decoder returns for it.
\<close>

definition lead_criteria_text :: string where
  \<open>lead_criteria_text =
     ''{"rules": [{"field": "status", "operator": "eq", "value": "lead"}], "match": "all"}''\<close>

definition lead_rule :: val where
  "lead_rule =
     VDict [(''field'', VStr ''status''), (''operator'', VStr ''eq''), (''value'', VStr ''lead'')]"

definition lead_criteria :: val where
  "lead_criteria = VDict [(''rules'', VList [lead_rule]), (''match'', VStr ''all'')]"


definition huge_rule :: val where
  "huge_rule =
     VDict [(''field'', VStr ''engagement_score''), (''operator'', VStr ''gt''),
            (''value'', VInt (10 ^ 400))]"

text \<open>
  A runtime for the scenarios: the decoder knows the one criteria text and rejects any
  other, no string is a number, and float arithmetic is exact.
\<close>

definition scenario_runtime :: runtime where
  "scenario_runtime =
     \<lparr> json_loads = (\<lambda>s. if s = lead_criteria_text then Some lead_criteria else None),
       float_of_str = (\<lambda>s. None),
       str_of = (\<lambda>v. []),
       str_lower = (\<lambda>s. s),
       base_attr = (\<lambda>a. None),
       rnd = (\<lambda>x. x),
       fsum = sum_list \<rparr>"

text \<open>A customer as \<^verbatim>\<open>create_customer(name, email, status=...)\<close> stores it.\<close>

definition new_customer :: "int \<Rightarrow> string \<Rightarrow> string \<Rightarrow> string \<Rightarrow> customer" where
  "new_customer i nm em stat =
     \<lparr> cust_id = i, cust_name = nm, cust_email = em, cust_phone = None,
       cust_demographics = None, cust_purchase_history = None, cust_behavioral_data = None,
       cust_total_spent = 0, cust_lifetime_value = 0, cust_engagement_score = 0,
       cust_status = stat, cust_lead_source = None, cust_campaign_activities = [] \<rparr>"

definition ann :: customer where
  "ann = new_customer 1 ''Ann'' ''ann@example.com'' ''lead''"

text \<open>
  A result row whose cost is negative, as a launch leaves it for a campaign created with
  budget -1000 and the default cost per send (100 sent: 100 * 0.01 - 500 = -499).
\<close>

definition negative_cost_result :: campaign_result where
  "negative_cost_result =
     \<lparr> res_id = 1, res_campaign_id = 1, res_total_sent = 100, res_delivered = 95,
       res_bounced = 5, res_opens = 20, res_clicks = 4, res_unsubscribes = 0,
       res_impressions = 0, res_conversions = 1, res_leads_generated = 1,
       res_leads_converted = 1, res_revenue_attributed = 100, res_total_cost = - 499 \<rparr>"

text \<open>A store with one result row: 100 sent, 50 delivered, 25 opened.\<close>

definition half_delivered_result :: campaign_result where
  "half_delivered_result =
     \<lparr> res_id = 1, res_campaign_id = 1, res_total_sent = 100, res_delivered = 50,
       res_bounced = 50, res_opens = 25, res_clicks = 5, res_unsubscribes = 0,
       res_impressions = 0, res_conversions = 1, res_leads_generated = 1,
       res_leads_converted = 1, res_revenue_attributed = 100, res_total_cost = 50 \<rparr>"

definition half_delivered_store :: store where
  "half_delivered_store =
     \<lparr> customers = [], segments = [], campaigns = [], results = [half_delivered_result],
       segment_customers = [] \<rparr>"

text \<open>
  A result row with the column defaults, as \<^verbatim>\<open>create_campaign\<close> adds it, and a
  campaign as \<^verbatim>\<open>create_campaign\<close> stores it: a draft, with the default cost per send.
\<close>

definition zero_result :: "int \<Rightarrow> int \<Rightarrow> campaign_result" where
  "zero_result i cid =
     \<lparr> res_id = i, res_campaign_id = cid, res_total_sent = 0, res_delivered = 0,
       res_bounced = 0, res_opens = 0, res_clicks = 0, res_unsubscribes = 0,
       res_impressions = 0, res_conversions = 0, res_leads_generated = 0,
       res_leads_converted = 0, res_revenue_attributed = 0, res_total_cost = 0 \<rparr>"

definition new_campaign :: "int \<Rightarrow> string \<Rightarrow> int \<Rightarrow> string \<Rightarrow> rat \<Rightarrow> campaign" where
  "new_campaign i nm sid ctype budget =
     \<lparr> camp_id = i, camp_name = nm, camp_description = None, camp_campaign_type = ctype,
       camp_subject = None, camp_content = None, camp_segment_id = sid,
       camp_status = ''draft'', camp_schedule_time = None, camp_start_date = None,
       camp_end_date = None, camp_budget = Some budget, camp_cost_per_send = Some (1 / 100),
       camp_workflow_steps = None \<rparr>"

text \<open>The "New Leads" segment, and a draft campaign that targets it.\<close>

definition lead_segment :: segment where
  "lead_segment =
     \<lparr> seg_id = 1, seg_name = ''New Leads'', seg_description = None,
       seg_criteria = lead_criteria_text, seg_segment_type = ''manual'',
       seg_customer_count = 0, seg_is_active = True \<rparr>"

definition spring_campaign :: campaign where
  "spring_campaign = new_campaign 1 ''Spring'' 1 ''email'' 1000"


text \<open>
  A store in which the segment of the draft campaign matches no customer, and the same
  store with the campaign active and paused.
\<close>

definition draft_store :: store where
  "draft_store =
     \<lparr> customers = [new_customer 2 ''Bob'' ''bob@example.com'' ''customer''],
       segments = [lead_segment],
       campaigns = [spring_campaign],
       results = [zero_result 1 1],
       segment_customers = [] \<rparr>"



text \<open>Draws that return the middle of the range they are asked for.\<close>

definition mid_int :: "int \<Rightarrow> int \<Rightarrow> int" where
  "mid_int lo hi = (lo + hi) div 2"

definition mid_rat :: "rat \<Rightarrow> rat \<Rightarrow> rat" where
  "mid_rat a b = (a + b) / 2"

definition demo_draws :: draws where
  "demo_draws =
     \<lparr> fallback_audience = mid_int, delivery_draw = mid_rat, email_open_draw = mid_rat,
       email_click_draw = mid_rat, social_impressions_draw = mid_int,
       social_open_draw = mid_rat, social_click_draw = mid_rat,
       ads_impressions_draw = mid_int, ads_click_draw = mid_rat, conversion_draw = mid_rat,
       coin_draw = 7 / 10, leads_draw = mid_rat, leads_converted_draw = mid_rat,
       order_value_draw = mid_rat \<rparr>"




definition null_budget_store :: store where
  "null_budget_store = draft_store\<lparr>campaigns := [spring_campaign\<lparr>camp_budget := None\<rparr>]\<rparr>"






section \<open>The evaluator: single rules\<close>

lemma unresolved_field_false:
  "get_nested_value R c field_path = Inr VNone \<Longrightarrow>
   eval_one_rule R c (VDict [(''field'', field_path), (''operator'', operator), (''value'', v)])
     = Inr False"
  by (simp add: eval_one_rule_def py_get_def bnd_def evaluate_rule_def)

lemma unknown_attribute_none:
  "base_attr R a = None \<Longrightarrow> a \<notin> set customer_methods \<Longrightarrow>
   a \<notin> {''id'', ''name'', ''email'', ''phone'', ''demographics'', ''purchase_history'',
          ''behavioral_data'', ''total_spent'', ''lifetime_value'', ''engagement_score'',
          ''status'', ''lead_source'', ''created_at'', ''updated_at'', ''campaign_activities''} \<Longrightarrow>
   getattr_customer R c a = VNone"
  by (simp add: getattr_customer_def)

lemma unknown_operator_false:
  "operator \<notin> VStr ` {''eq'', ''neq'', ''gt'', ''gte'', ''lt'', ''lte'', ''contains'', ''in''} \<Longrightarrow>
   evaluate_rule R a operator e = Inr False"
  by (auto simp add: evaluate_rule_def rule_body_def except_value_type_def)

text \<open>
  What can leave \<^verbatim>\<open>evaluate_rule\<close>: the handler catches ValueError and TypeError, so
  OverflowError is the only exception it lets through; a numeric operator whose coercion
  fails with one of the two caught exceptions gives False.
\<close>

lemma py_float_error:
  "py_float R v = Inl err \<Longrightarrow> err = ValueError \<or> err = TypeError \<or> err = OverflowError"
  by (cases v) (auto simp add: py_float_def split: if_splits option.splits)

lemma py_in_error: "py_in a e = Inl err \<Longrightarrow> err = TypeError"
  by (cases e; cases a) (auto simp add: py_in_def)

lemma float_compare_error:
  "bnd (py_float R a) (\<lambda>x. bnd (py_float R e) (\<lambda>y. Inr (g x y))) = Inl err \<Longrightarrow>
   err = ValueError \<or> err = TypeError \<or> err = OverflowError"
  by (cases "py_float R a"; cases "py_float R e") (auto simp add: bnd_def dest: py_float_error)

lemma rule_body_error:
  "rule_body R a operator e = Inl err \<Longrightarrow>
   err = ValueError \<or> err = TypeError \<or> err = OverflowError"
  unfolding rule_body_def
  by (auto split: if_splits dest: float_compare_error py_in_error)

lemma evaluate_rule_only_overflow:
  "evaluate_rule R a operator e = Inl err \<Longrightarrow> err = OverflowError"
  by (auto simp add: evaluate_rule_def except_value_type_def split: if_splits sum.splits
      dest: rule_body_error)

lemma numeric_operator_coercion_failure_false:
  assumes op: "operator = VStr ''gt'' \<or> operator = VStr ''gte'' \<or> operator = VStr ''lt''
               \<or> operator = VStr ''lte''"
    and fail: "py_float R a = Inl ValueError \<or> py_float R a = Inl TypeError
         \<or> (\<exists>x. py_float R a = Inr x)
            \<and> (py_float R e = Inl ValueError \<or> py_float R e = Inl TypeError)"
  shows "evaluate_rule R a operator e = Inr False"
proof -
  have "rule_body R a operator e = Inl ValueError \<or> rule_body R a operator e = Inl TypeError"
  proof -
    have f: "bnd (py_float R a) (\<lambda>x. bnd (py_float R e) (\<lambda>y. Inr (g x y))) = Inl ValueError
        \<or> bnd (py_float R a) (\<lambda>x. bnd (py_float R e) (\<lambda>y. Inr (g x y))) = Inl TypeError"
      for g :: "pyfloat \<Rightarrow> pyfloat \<Rightarrow> bool"
      using fail by (auto simp add: bnd_def)
    from op show ?thesis
    proof (elim disjE)
      assume "operator = VStr ''gt''"
      then show ?thesis using f [of "\<lambda>a e. float_lt e a"] by (simp add: rule_body_def)
    next
      assume "operator = VStr ''gte''"
      then show ?thesis using f [of "\<lambda>a e. float_le e a"] by (simp add: rule_body_def)
    next
      assume "operator = VStr ''lt''"
      then show ?thesis using f [of "\<lambda>a e. float_lt a e"] by (simp add: rule_body_def)
    next
      assume "operator = VStr ''lte''"
      then show ?thesis using f [of "\<lambda>a e. float_le a e"] by (simp add: rule_body_def)
    qed
  qed
  then show ?thesis
    by (auto simp add: evaluate_rule_def except_value_type_def)
qed

text \<open>
  \<^verbatim>\<open>get_nested_value\<close> has no handler: a stored demographics bag that is a list
  makes \<^verbatim>\<open>data.get\<close> raise AttributeError.
\<close>

lemma non_dict_bag_raises:
  "json_loads R s = Some (VList xs) \<Longrightarrow> s \<noteq> [] \<Longrightarrow>
   get_nested_value R (c\<lparr>cust_demographics := Some s\<rparr>) (VStr ''demographics.age'')
     = Inl AttributeError"
  by (simp add: get_nested_value_def get_demographics_def load_json_column_def bnd_def py_get_def)

text \<open>
  C2. The claim: for every customer and every rule, rule evaluation never raises. The code
  does not keep it: \<^verbatim>\<open>float\<close> of an int beyond the range of a double raises
  OverflowError, which \<^verbatim>\<open>except (ValueError, TypeError)\<close> does not catch. With the rule
  \<^verbatim>\<open>{"field": "engagement_score", "operator": "gt", "value": 10**400}\<close>, on any customer,
  \<^verbatim>\<open>evaluate_rule\<close>, the loop body and \<^verbatim>\<open>evaluate_segment_criteria\<close> all end in that
  exception.
\<close>

theorem evaluate_rule_overflow_escapes:
  "evaluate_rule R (VInt 50) (VStr ''gt'') (VInt (10 ^ 400)) = Inl OverflowError
   \<and> eval_one_rule R c huge_rule = Inl OverflowError
   \<and> evaluate_segment_criteria R c
        (VDict [(''rules'', VList [huge_rule]), (''match'', VStr ''all'')])
       = Inl OverflowError"
  by (simp add: evaluate_rule_def get_nested_value_def getattr_customer_def huge_rule_def
      eval_one_rule_def py_get_def bnd_def rule_body_def py_float_def except_value_type_def
      evaluate_segment_criteria_def py_iter_def)

text \<open>
  C10. A rule whose resolved value is None is false, whatever the operator and the expected
  value: \<^verbatim>\<open>evaluate_rule\<close> returns False before it looks at the operator. A customer
  whose phone is null resolves the field \<^verbatim>\<open>phone\<close> to None, so no rule on it, a
  \<^verbatim>\<open>neq\<close> rule included, is satisfied.
\<close>

theorem none_value_never_matches:
  "evaluate_rule R VNone operator expected_value = Inr False
   \<and> get_nested_value R (c\<lparr>cust_phone := None\<rparr>) (VStr ''phone'') = Inr VNone
   \<and> eval_one_rule R (c\<lparr>cust_phone := None\<rparr>)
        (VDict [(''field'', VStr ''phone''), (''operator'', operator), (''value'', expected_value)])
      = Inr False"
  by (simp add: evaluate_rule_def get_nested_value_def getattr_customer_def opt_str_def
      eval_one_rule_def py_get_def bnd_def)

section \<open>The evaluator: combining the rules\<close>






text \<open>
  The permissive fallback belongs to the evaluator alone: a segment whose stored criteria
  text does not decode fails earlier, in \<^verbatim>\<open>Segment.get_criteria\<close>.
\<close>

lemma malformed_stored_criteria_raises:
  "segment_query_get st sid = Some seg \<Longrightarrow> seg_criteria seg \<noteq> [] \<Longrightarrow>
   json_loads R (seg_criteria seg) = None \<Longrightarrow>
   get_segment_customers R st sid = Inl JSONDecodeError"
  by (simp add: get_segment_customers_def get_criteria_def load_json_column_def bnd_def)

text \<open>
  C4. A criteria payload that is a string the decoder rejects: the evaluator returns True
  for every customer, and raises nothing.
\<close>

theorem malformed_criteria_match_everything:
  "json_loads R s = None \<Longrightarrow> evaluate_segment_criteria R c (VStr s) = Inr True"
  by (simp add: evaluate_segment_criteria_def)

theorem malformed_criteria_match_everything_witness:
  "json_loads scenario_runtime ''{rules: oops'' = None
   \<and> evaluate_segment_criteria scenario_runtime ann (VStr ''{rules: oops'') = Inr True"
proof -
  have h: "json_loads scenario_runtime ''{rules: oops'' = None"
    by (simp add: scenario_runtime_def lead_criteria_text_def)
  show ?thesis using h malformed_criteria_match_everything [OF h, of ann] by simp
qed

section \<open>The derived rates\<close>

text \<open>
  C5, as the claim states it, fails: a rate is the quotient only when its denominator is
  positive. On a result whose cost is -499 and whose revenue is 100, the ROI reported is 0,
  while the denominator is not 0 and (revenue - cost) / cost is not 0.
\<close>

theorem roi_negative_cost_counterexample:
  "res_total_cost negative_cost_result \<noteq> 0
   \<and> m_roi (calculate_metrics scenario_runtime negative_cost_result) = 0
   \<and> (res_revenue_attributed negative_cost_result - res_total_cost negative_cost_result)
        / res_total_cost negative_cost_result * 100 \<noteq> 0"
  by (simp add: calculate_metrics_def negative_cost_result_def)

text \<open>
  C5, amended. For every result row, each derived metric is the quotient the claim names,
  times 100, computed in float arithmetic, when its denominator is positive, and exactly 0
  when its denominator is zero or negative; so no division by zero takes place.
\<close>

theorem calculate_metrics_guarded:
  "m_delivery_rate (calculate_metrics R r) =
     (if res_total_sent r > 0
      then rnd R (rnd R (of_int (res_delivered r) / of_int (res_total_sent r)) * 100) else 0)
   \<and> m_open_rate (calculate_metrics R r) =
     (if res_delivered r > 0
      then rnd R (rnd R (of_int (res_opens r) / of_int (res_delivered r)) * 100) else 0)
   \<and> m_click_rate (calculate_metrics R r) =
     (if res_opens r > 0
      then rnd R (rnd R (of_int (res_clicks r) / of_int (res_opens r)) * 100) else 0)
   \<and> m_ctr (calculate_metrics R r) =
     (if res_delivered r > 0
      then rnd R (rnd R (of_int (res_clicks r) / of_int (res_delivered r)) * 100) else 0)
   \<and> m_conversion_rate (calculate_metrics R r) =
     (if res_clicks r > 0
      then rnd R (rnd R (of_int (res_conversions r) / of_int (res_clicks r)) * 100) else 0)
   \<and> m_roi (calculate_metrics R r) =
     (if res_total_cost r > 0
      then rnd R (rnd R (rnd R (res_revenue_attributed r - res_total_cost r)
                         / res_total_cost r) * 100)
      else 0)"
  by (simp add: calculate_metrics_def percent_of_def roi_of_def)

text \<open>
  C7, as the claim states it, fails: the overview divides the opens by the total sent, not
  by the total delivered, which it does not sum. With one result row of 100 sent, 50
  delivered and 25 opened, the overall open rate is 25, while opens over delivered, which
  is also the open rate of the row itself, is 50.
\<close>

theorem overview_open_rate_counterexample:
  "overall_open_rate (get_analytics_overview scenario_runtime half_delivered_store) = 25
   \<and> sum_list (map res_delivered (results half_delivered_store)) = 50
   \<and> percent_of scenario_runtime (sum_list (map res_opens (results half_delivered_store)))
        (sum_list (map res_delivered (results half_delivered_store))) = 50
   \<and> m_open_rate (calculate_metrics scenario_runtime half_delivered_result) = 50"
  by (simp add: get_analytics_overview_def half_delivered_store_def half_delivered_result_def
      percent_of_def scenario_runtime_def calculate_metrics_def)

text \<open>
  C7, amended. Over the sums of the result rows, the overall open rate is opens over sent,
  the overall click rate clicks over opens, the overall conversion rate conversions over
  clicks and the overall ROI (revenue - cost) over cost, each times 100 in float arithmetic
  when its denominator is positive, and exactly 0 when it is zero or negative.
\<close>

theorem overview_rates_guarded:
  "overall_open_rate (get_analytics_overview R st) =
     (if sum_list (map res_total_sent (results st)) > 0
      then rnd R (rnd R (of_int (sum_list (map res_opens (results st)))
                         / of_int (sum_list (map res_total_sent (results st)))) * 100) else 0)
   \<and> overall_click_rate (get_analytics_overview R st) =
     (if sum_list (map res_opens (results st)) > 0
      then rnd R (rnd R (of_int (sum_list (map res_clicks (results st)))
                         / of_int (sum_list (map res_opens (results st)))) * 100) else 0)
   \<and> overall_conversion_rate (get_analytics_overview R st) =
     (if sum_list (map res_clicks (results st)) > 0
      then rnd R (rnd R (of_int (sum_list (map res_conversions (results st)))
                         / of_int (sum_list (map res_clicks (results st)))) * 100) else 0)
   \<and> overall_roi (get_analytics_overview R st) =
     (if fsum R (map res_total_cost (results st)) > 0
      then rnd R (rnd R (rnd R (fsum R (map res_revenue_attributed (results st))
                                - fsum R (map res_total_cost (results st)))
                         / fsum R (map res_total_cost (results st))) * 100)
      else 0)"
  by (simp add: get_analytics_overview_def percent_of_def roi_of_def Let_def)

section \<open>Campaign lifecycle\<close>

lemma find_replace:
  "find (\<lambda>x. key x = i) xs = Some x0 \<Longrightarrow> key y = i \<Longrightarrow>
   find (\<lambda>x. key x = i) (map (\<lambda>x. if key x = i then y else x) xs) = Some y"
  by (induction xs) (auto split: if_splits)

lemma find_key: "find (\<lambda>x. key x = i) xs = Some x0 \<Longrightarrow> key x0 = i"
  by (induction xs) (auto split: if_splits)

lemma campaign_query_get_id: "campaign_query_get st cid = Some c \<Longrightarrow> camp_id c = cid"
  unfolding campaign_query_get_def by (rule find_key)

lemma campaign_query_get_put:
  "campaign_query_get st cid = Some c \<Longrightarrow> camp_id c' = cid \<Longrightarrow>
   campaign_query_get (put_campaign st c') cid = Some c'"
  unfolding campaign_query_get_def put_campaign_def
  using find_replace [of camp_id cid "campaigns st" c c'] by simp

lemma results_put_campaign: "results (put_campaign st c') = results st"
  by (simp add: put_campaign_def)

lemma campaign_results_put_campaign:
  "camp_id c' = camp_id c \<Longrightarrow> campaign_results (put_campaign st c') c' = campaign_results st c"
  by (simp add: campaign_results_def put_campaign_def)

lemma campaign_results_put_result:
  "campaign_results st c = Some r \<Longrightarrow> res_id r' = res_id r \<Longrightarrow>
   res_campaign_id r' = camp_id c \<Longrightarrow>
   campaign_results (put_result st r') c = Some r'"
proof -
  assume f: "campaign_results st c = Some r" and i: "res_id r' = res_id r"
    and k: "res_campaign_id r' = camp_id c"
  have "find (\<lambda>x. res_campaign_id x = camp_id c)
          (map (\<lambda>x. if res_id x = res_id r' then r' else x) rs) = Some r'"
    if "find (\<lambda>x. res_campaign_id x = camp_id c) rs = Some r" for rs
    using that i k by (induction rs) (auto split: if_splits)
  then show ?thesis using f by (simp add: campaign_results_def put_result_def)
qed

lemma campaign_query_get_put_result:
  "campaign_query_get (put_result st r') cid = campaign_query_get st cid"
  by (simp add: campaign_query_get_def put_result_def)

lemma campaign_results_key: "campaign_results st c = Some r \<Longrightarrow> res_campaign_id r = camp_id c"
  unfolding campaign_results_def by (rule find_key)

text \<open>
  The simulation against the model of the specification: when the cost per send and the
  budget are set, the row \<^verbatim>\<open>launch_campaign\<close> writes satisfies every equation of
  \<open>simulated_row\<close>; when one of them is null, the block raises TypeError.
\<close>

lemma simulate_results_null:
  "camp_cost_per_send c = None \<or> camp_budget c = None \<Longrightarrow>
   simulate_results R D c a r = Inl TypeError"
  by (auto simp add: simulate_results_def Let_def split: option.splits)

lemma simulate_results_simulated:
  assumes k: "camp_cost_per_send c = Some k" and b: "camp_budget c = Some b"
  shows "\<exists>r'. simulate_results R D c a r = Inr r'
              \<and> simulated_row R D (camp_campaign_type c) a k b r r'"
proof -
  consider (email) "camp_campaign_type c = ''email''"
    | (social) "camp_campaign_type c \<noteq> ''email''" "camp_campaign_type c = ''social''"
    | (other) "camp_campaign_type c \<noteq> ''email''" "camp_campaign_type c \<noteq> ''social''"
    by blast
  then show ?thesis
  proof cases
    case email
    then show ?thesis using k b
      by (simp add: simulate_results_def simulated_row_def Let_def)
  next
    case social
    then show ?thesis using k b
      by (simp add: simulate_results_def simulated_row_def Let_def)
  next
    case other
    then show ?thesis using k b
      by (simp add: simulate_results_def simulated_row_def Let_def)
  qed
qed

lemma simulated_row_ids:
  "simulated_row R D ctype a k b r r' \<Longrightarrow>
   res_id r' = res_id r \<and> res_campaign_id r' = res_campaign_id r \<and> res_total_sent r' = a"
  by (simp add: simulated_row_def)


lemma launch_draft_row:
  assumes found: "campaign_query_get st cid = Some c"
    and draft: "camp_status c = ''draft''"
    and aud: "get_segment_customers R st (camp_segment_id c) = Inr ms"
    and row: "campaign_results st c = Some r"
  shows "launch_campaign R D now st cid =
           bnd (simulate_results R D (c\<lparr>camp_status := ''active'', camp_start_date := Some now\<rparr>)
                  (audience_size_of D ms) r)
             (\<lambda>r'. Inr (Some (c\<lparr>camp_status := ''active'', camp_start_date := Some now\<rparr>),
                         put_result
                           (put_campaign st (c\<lparr>camp_status := ''active'', camp_start_date := Some now\<rparr>))
                           r'))"
  using found draft aud row by (simp add: launch_campaign_def bnd_def Let_def)

lemma launch_query_raises:
  assumes found: "campaign_query_get st cid = Some c"
    and draft: "camp_status c = ''draft''"
    and aud: "get_segment_customers R st (camp_segment_id c) = Inl e"
  shows "launch_campaign R D now st cid = Inl e"
  using found draft aud by (simp add: launch_campaign_def bnd_def)

lemma launch_null_raises:
  assumes found: "campaign_query_get st cid = Some c"
    and draft: "camp_status c = ''draft''"
    and aud: "get_segment_customers R st (camp_segment_id c) = Inr ms"
    and row: "campaign_results st c = Some r"
    and null: "camp_cost_per_send c = None \<or> camp_budget c = None"
  shows "launch_campaign R D now st cid = Inl TypeError"
proof -
  have "simulate_results R D (c\<lparr>camp_status := ''active'', camp_start_date := Some now\<rparr>)
          (audience_size_of D ms) r = Inl TypeError"
    using null by (intro simulate_results_null) simp
  then show ?thesis using launch_draft_row [OF found draft aud row, of D now] by (simp add: bnd_def)
qed

lemma launch_draft_effect:
  assumes found: "campaign_query_get st cid = Some c"
    and draft: "camp_status c = ''draft''"
    and aud: "get_segment_customers R st (camp_segment_id c) = Inr ms"
    and row: "campaign_results st c = Some r"
    and k: "camp_cost_per_send c = Some k"
    and b: "camp_budget c = Some b"
  shows "\<exists>st' r'. launch_campaign R D now st cid =
             Inr (Some (c\<lparr>camp_status := ''active'', camp_start_date := Some now\<rparr>), st')
          \<and> campaign_query_get st' cid
             = Some (c\<lparr>camp_status := ''active'', camp_start_date := Some now\<rparr>)
          \<and> campaign_results st' (c\<lparr>camp_status := ''active'', camp_start_date := Some now\<rparr>)
             = Some r'
          \<and> simulated_row R D (camp_campaign_type c) (audience_size_of D ms) k b r r'"
proof -
  let ?c' = "c\<lparr>camp_status := ''active'', camp_start_date := Some now\<rparr>"
  have id: "camp_id ?c' = cid" using campaign_query_get_id [OF found] by simp
  have q: "campaign_query_get (put_campaign st ?c') cid = Some ?c'"
    using found id by (rule campaign_query_get_put)
  have cr: "campaign_results (put_campaign st ?c') ?c' = Some r"
    using row campaign_results_put_campaign [of ?c' c st] by simp
  from simulate_results_simulated [of ?c' k b R D "audience_size_of D ms" r] k b
  obtain r' where s: "simulate_results R D ?c' (audience_size_of D ms) r = Inr r'"
    and sim: "simulated_row R D (camp_campaign_type c) (audience_size_of D ms) k b r r'"
    by auto
  have key: "res_campaign_id r = camp_id c" using row by (rule campaign_results_key)
  have ids: "res_id r' = res_id r" "res_campaign_id r' = camp_id ?c'"
    using simulated_row_ids [OF sim] key by simp_all
  have res: "campaign_results (put_result (put_campaign st ?c') r') ?c' = Some r'"
    using cr ids by (rule campaign_results_put_result)
  have l: "launch_campaign R D now st cid = Inr (Some ?c', put_result (put_campaign st ?c') r')"
    using launch_draft_row [OF found draft aud row, of D now] s by (simp add: bnd_def)
  show ?thesis using l q res sim by (auto simp add: campaign_query_get_put_result)
qed


lemma lead_criteria_on:
  "evaluate_segment_criteria scenario_runtime (new_customer i nm em stat) lead_criteria
     = Inr (stat = ''lead'')"
  by (auto simp add: evaluate_segment_criteria_def lead_criteria_def py_get_def bnd_def
      py_iter_def eval_one_rule_def lead_rule_def get_nested_value_def getattr_customer_def
      new_customer_def evaluate_rule_def rule_body_def except_value_type_def)

lemma lead_segment_criteria: "get_criteria scenario_runtime lead_segment = Inr lead_criteria"
  by (simp add: get_criteria_def load_json_column_def lead_segment_def scenario_runtime_def
      lead_criteria_text_def)

lemma draft_found: "campaign_query_get draft_store 1 = Some spring_campaign"
  by (simp add: campaign_query_get_def draft_store_def spring_campaign_def new_campaign_def)

lemma draft_audience: "get_segment_customers scenario_runtime draft_store 1 = Inr []"
  by (simp add: get_segment_customers_def segment_query_get_def draft_store_def
      lead_segment_criteria bnd_def lead_criteria_on)

lemma spring_segment: "camp_segment_id spring_campaign = 1" "camp_status spring_campaign = ''draft''"
  by (simp_all add: spring_campaign_def new_campaign_def)

lemma draft_results: "campaign_results draft_store spring_campaign = Some (zero_result 1 1)"
  by (simp add: campaign_results_def draft_store_def spring_campaign_def new_campaign_def
      zero_result_def)



lemma mid_int_contract: "randint_contract mid_int"
  by (simp add: randint_contract_def mid_int_def) presburger

lemma mid_rat_contract: "uniform_contract mid_rat"
  by (simp add: uniform_contract_def mid_rat_def field_simps)

lemma demo_draws_in_range: "draws_in_range demo_draws"
  by (simp add: draws_in_range_def demo_draws_def mid_int_contract mid_rat_contract)

lemma spring_money:
  "camp_cost_per_send spring_campaign = Some (1 / 100)" "camp_budget spring_campaign = Some 1000"
  "camp_campaign_type spring_campaign = ''email''"
  by (simp_all add: spring_campaign_def new_campaign_def)




text \<open>
  C9. Completing a draft campaign sets its status to completed and its end date to the time
  of the call, and changes no result row: the result of the campaign is what it was, so it
  stays at its zero defaults when it was there.
\<close>

theorem complete_draft_campaign:
  assumes found: "campaign_query_get st cid = Some c"
    and draft: "camp_status c = ''draft''"
  shows "fst (complete_campaign now st cid)
           = Some (c\<lparr>camp_status := ''completed'', camp_end_date := Some now\<rparr>)
       \<and> campaign_query_get (snd (complete_campaign now st cid)) cid
           = Some (c\<lparr>camp_status := ''completed'', camp_end_date := Some now\<rparr>)
       \<and> results (snd (complete_campaign now st cid)) = results st
       \<and> campaign_results (snd (complete_campaign now st cid))
            (c\<lparr>camp_status := ''completed'', camp_end_date := Some now\<rparr>)
           = campaign_results st c"
proof -
  let ?c' = "c\<lparr>camp_status := ''completed'', camp_end_date := Some now\<rparr>"
  have id: "camp_id ?c' = cid" using campaign_query_get_id [OF found] by simp
  have eq: "complete_campaign now st cid = (Some ?c', put_campaign st ?c')"
    using found by (simp add: complete_campaign_def Let_def)
  have q: "campaign_query_get (put_campaign st ?c') cid = Some ?c'"
    using found id by (rule campaign_query_get_put)
  have r: "campaign_results (put_campaign st ?c') ?c' = campaign_results st c"
    by (rule campaign_results_put_campaign) simp
  show ?thesis using eq q r by (simp add: results_put_campaign)
qed

theorem complete_draft_campaign_witness:
  "campaign_query_get draft_store 1 = Some spring_campaign
   \<and> camp_status spring_campaign = ''draft''
   \<and> fst (complete_campaign 1700000000 draft_store 1)
       = Some (spring_campaign\<lparr>camp_status := ''completed'', camp_end_date := Some 1700000000\<rparr>)
   \<and> campaign_results (snd (complete_campaign 1700000000 draft_store 1))
        (spring_campaign\<lparr>camp_status := ''completed'', camp_end_date := Some 1700000000\<rparr>)
       = Some (zero_result 1 1)"
proof -
  have d: "camp_status spring_campaign = ''draft''"
    by (simp add: spring_campaign_def new_campaign_def)
  have r: "campaign_results draft_store spring_campaign = Some (zero_result 1 1)"
    by (simp add: campaign_results_def draft_store_def spring_campaign_def new_campaign_def
        zero_result_def)
  show ?thesis
    using complete_draft_campaign [OF draft_found d, of 1700000000] draft_found d r by simp
qed

section \<open>The simulated audience and delivery\<close>

lemma py_int_le:
  assumes "x \<le> of_int a" and "0 \<le> a"
  shows "py_int x \<le> a"
proof (cases "0 \<le> x")
  case True
  then have "py_int x = \<lfloor>x\<rfloor>" by (simp add: py_int_def)
  moreover have "\<lfloor>x\<rfloor> \<le> a" using assms(1) by (simp add: floor_le_iff)
  ultimately show ?thesis by simp
next
  case False
  then have "py_int x = \<lceil>x\<rceil>" by (simp add: py_int_def)
  moreover have "\<lceil>x\<rceil> \<le> 0" using False by (simp add: ceiling_le_iff)
  ultimately show ?thesis using assms(2) by linarith
qed

lemma delivered_le_sent:
  assumes mono: "mono (rnd R)"
    and exact: "rnd R (of_int a) = of_int a"
    and a: "0 \<le> a"
    and u: "u \<le> 1"
  shows "py_int (fmul_int R a u) \<le> a"
proof -
  have "of_int a * u \<le> (of_int a :: rat)"
    using a u by (simp add: mult_left_le)
  then have "rnd R (of_int a * u) \<le> rnd R (of_int a)"
    using mono by (simp add: monoD)
  then have "fmul_int R a u \<le> of_int a"
    using exact by (simp add: fmul_int_def)
  then show ?thesis using a by (rule py_int_le)
qed

lemma delivery_draw_le_one:
  assumes draws: "draws_in_range D"
    and mono: "mono (rnd R)"
    and one: "rnd R 1 = 1"
  shows "delivery_draw D (flit R (92 / 100)) (flit R (98 / 100)) \<le> 1"
proof -
  have le: "flit R (92 / 100) \<le> flit R (98 / 100)"
    unfolding flit_def using mono by (rule monoD) simp
  have "flit R (98 / 100) \<le> rnd R 1"
    unfolding flit_def using mono by (rule monoD) simp
  then have top: "flit R (98 / 100) \<le> 1" using one by simp
  have "delivery_draw D (flit R (92 / 100)) (flit R (98 / 100)) \<le> flit R (98 / 100)"
    using draws le by (simp add: draws_in_range_def uniform_contract_def)
  then show ?thesis using top by simp
qed

lemma audience_size_range:
  assumes "draws_in_range D"
  shows "0 \<le> audience_size_of D ms"
    and "ms = [] \<Longrightarrow> 100 \<le> audience_size_of D ms \<and> audience_size_of D ms \<le> 500"
proof -
  have r: "100 \<le> fallback_audience D 100 500 \<and> fallback_audience D 100 500 \<le> 500"
    using assms by (simp add: draws_in_range_def randint_contract_def)
  show "0 \<le> audience_size_of D ms" using r by (simp add: audience_size_of_def)
  show "ms = [] \<Longrightarrow> 100 \<le> audience_size_of D ms \<and> audience_size_of D ms \<le> 500"
    using r by (simp add: audience_size_of_def)
qed

lemma null_budget_found:
  "campaign_query_get null_budget_store 1 = Some (spring_campaign\<lparr>camp_budget := None\<rparr>)"
  by (simp add: campaign_query_get_def null_budget_store_def draft_store_def
      spring_campaign_def new_campaign_def)

lemma null_budget_audience:
  "get_segment_customers scenario_runtime null_budget_store 1 = Inr []"
  by (simp add: get_segment_customers_def segment_query_get_def null_budget_store_def
      draft_store_def lead_segment_criteria bnd_def lead_criteria_on)

lemma null_budget_results:
  "campaign_results null_budget_store (spring_campaign\<lparr>camp_budget := None\<rparr>)
     = Some (zero_result 1 1)"
  by (simp add: campaign_results_def null_budget_store_def draft_store_def
      spring_campaign_def new_campaign_def zero_result_def)

text \<open>
  C6, as the claim states it, fails: a launch of a draft does not always leave a simulated
  audience. \<^verbatim>\<open>update_campaign\<close> stores a null budget as it is; a draft campaign with a
  null budget, whose segment matches no customer, makes \<^verbatim>\<open>launch_campaign\<close> raise
  TypeError on \<^verbatim>\<open>campaign.budget * 0.5\<close> before its commit, and the total sent of its
  result row is still 0, outside [100, 500].
\<close>

theorem launch_null_budget_counterexample:
  "campaign_query_get null_budget_store 1 = Some (spring_campaign\<lparr>camp_budget := None\<rparr>)
   \<and> camp_status (spring_campaign\<lparr>camp_budget := None\<rparr>) = ''draft''
   \<and> get_segment_customers scenario_runtime null_budget_store 1 = Inr []
   \<and> launch_campaign scenario_runtime demo_draws 1700000000 null_budget_store 1 = Inl TypeError
   \<and> campaign_results null_budget_store (spring_campaign\<lparr>camp_budget := None\<rparr>)
       = Some (zero_result 1 1)
   \<and> res_total_sent (zero_result 1 1) = 0"
proof -
  have d: "camp_status (spring_campaign\<lparr>camp_budget := None\<rparr>) = ''draft''"
    by (simp add: spring_segment)
  have a: "get_segment_customers scenario_runtime null_budget_store
             (camp_segment_id (spring_campaign\<lparr>camp_budget := None\<rparr>)) = Inr []"
    using null_budget_audience by (simp add: spring_segment)
  have l: "launch_campaign scenario_runtime demo_draws 1700000000 null_budget_store 1
      = Inl TypeError"
    by (rule launch_null_raises [OF null_budget_found d a null_budget_results]) simp
  show ?thesis
    using null_budget_found d null_budget_audience l null_budget_results
    by (simp add: zero_result_def)
qed

text \<open>
  C6, amended. Launching a draft campaign that has a result row and whose cost per send and
  budget are set, when the audience query returns, the draws obey the contracts of
  \<^verbatim>\<open>randint\<close>, \<^verbatim>\<open>uniform\<close> and \<^verbatim>\<open>random\<close>, and the rounding to a double is
  monotone and exact on the ints up to \<open>2^53\<close> (the audience being no larger): the launch
  returns, and in the result row it leaves, the total sent is between 100 and 500 when the
  segment matched no customer, delivered is at most the total sent, and bounced is the
  total sent minus delivered.
\<close>

theorem launch_audience_and_delivery:
  assumes found: "campaign_query_get st cid = Some c"
    and draft: "camp_status c = ''draft''"
    and aud: "get_segment_customers R st (camp_segment_id c) = Inr ms"
    and res: "campaign_results st c = Some r"
    and cost: "camp_cost_per_send c = Some k"
    and budget: "camp_budget c = Some b"
    and draws: "draws_in_range D"
    and mono: "mono (rnd R)"
    and exact: "\<forall>n::int. \<bar>n\<bar> \<le> 2 ^ 53 \<longrightarrow> rnd R (of_int n) = of_int n"
    and size: "int (length ms) \<le> 2 ^ 53"
  shows "\<exists>st' r'.
           launch_campaign R D now st cid =
             Inr (Some (c\<lparr>camp_status := ''active'', camp_start_date := Some now\<rparr>), st')
         \<and> campaign_results st' (c\<lparr>camp_status := ''active'', camp_start_date := Some now\<rparr>)
             = Some r'
         \<and> (ms = [] \<longrightarrow> 100 \<le> res_total_sent r' \<and> res_total_sent r' \<le> 500)
         \<and> res_delivered r' \<le> res_total_sent r'
         \<and> res_bounced r' = res_total_sent r' - res_delivered r'"
proof -
  let ?c' = "c\<lparr>camp_status := ''active'', camp_start_date := Some now\<rparr>"
  let ?a = "audience_size_of D ms"
  from launch_draft_effect [OF found draft aud res cost budget, of D now]
  obtain st' r' where l: "launch_campaign R D now st cid = Inr (Some ?c', st')"
    and cr: "campaign_results st' ?c' = Some r'"
    and sim: "simulated_row R D (camp_campaign_type c) ?a k b r r'"
    by blast
  have sent: "res_total_sent r' = ?a" using sim by (simp add: simulated_row_def)
  have del: "res_delivered r'
      = py_int (fmul_int R ?a (delivery_draw D (flit R (92 / 100)) (flit R (98 / 100))))"
    using sim by (simp add: simulated_row_def)
  have b: "res_bounced r' = res_total_sent r' - res_delivered r'"
    using sim by (simp add: simulated_row_def)
  have nonneg: "0 \<le> ?a" using draws by (rule audience_size_range(1))
  have rng: "ms = [] \<longrightarrow> 100 \<le> ?a \<and> ?a \<le> 500"
    using audience_size_range(2) [OF draws, of ms] by blast
  have small: "\<bar>?a\<bar> \<le> 2 ^ 53"
  proof (cases "ms = []")
    case True
    then have "?a \<le> 500" using rng by simp
    then show ?thesis using nonneg by simp
  next
    case False
    then show ?thesis using size by (simp add: audience_size_of_def)
  qed
  have ex: "rnd R (of_int ?a) = of_int ?a" using exact small by blast
  have one: "rnd R 1 = 1" using exact [rule_format, of 1] by simp
  have u: "delivery_draw D (flit R (92 / 100)) (flit R (98 / 100)) \<le> 1"
    using draws mono one by (rule delivery_draw_le_one)
  have d: "res_delivered r' \<le> res_total_sent r'"
    unfolding del sent using mono ex nonneg u by (rule delivered_le_sent)
  show ?thesis using l cr rng d b sent by auto
qed

theorem launch_audience_and_delivery_witness:
  "campaign_query_get draft_store 1 = Some spring_campaign
   \<and> camp_status spring_campaign = ''draft''
   \<and> get_segment_customers scenario_runtime draft_store (camp_segment_id spring_campaign) = Inr []
   \<and> campaign_results draft_store spring_campaign = Some (zero_result 1 1)
   \<and> camp_cost_per_send spring_campaign = Some (1 / 100)
   \<and> camp_budget spring_campaign = Some 1000
   \<and> draws_in_range demo_draws
   \<and> mono (rnd scenario_runtime)
   \<and> (\<exists>st' r'.
        launch_campaign scenario_runtime demo_draws 1700000000 draft_store 1 =
          Inr (Some (spring_campaign\<lparr>camp_status := ''active'',
                                      camp_start_date := Some 1700000000\<rparr>), st')
        \<and> campaign_results st'
             (spring_campaign\<lparr>camp_status := ''active'', camp_start_date := Some 1700000000\<rparr>)
            = Some r'
        \<and> 100 \<le> res_total_sent r' \<and> res_total_sent r' \<le> 500
        \<and> res_delivered r' \<le> res_total_sent r'
        \<and> res_bounced r' = res_total_sent r' - res_delivered r')"
proof -
  have a: "get_segment_customers scenario_runtime draft_store (camp_segment_id spring_campaign)
      = Inr []"
    using draft_audience by (simp add: spring_segment)
  have m: "mono (rnd scenario_runtime)"
    by (simp add: scenario_runtime_def mono_def)
  have e: "\<forall>n::int. \<bar>n\<bar> \<le> 2 ^ 53 \<longrightarrow> rnd scenario_runtime (of_int n) = of_int n"
    by (simp add: scenario_runtime_def)
  have s: "int (length ([] :: customer list)) \<le> 2 ^ 53" by simp
  show ?thesis
    using launch_audience_and_delivery
      [OF draft_found spring_segment(2) a draft_results spring_money(1) spring_money(2)
        demo_draws_in_range m e s, of 1700000000]
      draft_found spring_segment(2) a draft_results spring_money(1) spring_money(2)
      demo_draws_in_range m
    by simp
qed

section \<open>Refreshing a segment\<close>








end
